theory Spec2Isabelle
  imports Main "HOL-Library.Word"
begin

section \<open>Python values, exceptions and the host\<close>

text \<open>
  The serialization layer of MICE (\<^verbatim>\<open>src/utils.py\<close>) packs numbers with Python's
  \<^verbatim>\<open>struct\<close> module and appends the packed bytes to a file object. Every format
  string of the source is written without a byte-order prefix, so \<^verbatim>\<open>struct\<close> works
  in native mode: native byte order, native sizes (a C \<^verbatim>\<open>int\<close> and a C
  \<^verbatim>\<open>float\<close> of 4 bytes, a C \<^verbatim>\<open>double\<close> of 8 bytes) and native alignment.
\<close>

type_synonym byte = "8 word"

text \<open>The exceptions the modelled code can raise, named as Python names them
  (\<open>StructError\<close> is \<^verbatim>\<open>struct.error\<close>).\<close>

datatype error =
  IndexError | ValueError | TypeError | StructError | OverflowError
  | SyntaxError | KeyError | OSError | RuntimeError

text \<open>
  A Python number is an unbounded integer or a float; a float is held as its IEEE-754
  binary64 bit pattern, which is what the interpreter stores. \<open>PyBytes\<close> is a
  \<^verbatim>\<open>bytes\<close> object.
\<close>

datatype pyval = PyInt int | PyFloat "64 word" | PyBytes "byte list"

datatype byteorder = LittleEndian | BigEndian

text \<open>
  The host running the interpreter: its byte order, and what the \<^verbatim>\<open>struct\<close>
  module does that is no part of this repository and is not modelled here. \<open>as_double\<close>
  turns a Python integer into a C double (\<^verbatim>\<open>PyFloat_AsDouble\<close>) and \<open>narrow\<close>
  casts a C double to a C float; each may raise. \<open>pack_other\<close> is
  \<^verbatim>\<open>struct.pack\<close> on a format with a character other than the four format
  characters and the white space that the source itself writes (a byte-order prefix, a
  repeat count, another format character): the caller of \<^verbatim>\<open>write_block\<close> may pass
  any format string.
\<close>

record platform =
  byteorder :: byteorder
  as_double :: "int \<Rightarrow> error + 64 word"
  narrow :: "64 word \<Rightarrow> error + 32 word"
  pack_other :: "string \<Rightarrow> pyval list \<Rightarrow> error + byte list"

section \<open>The struct module, native mode\<close>

text \<open>The bytes of a two's complement integer of \<open>n\<close> bytes, least significant first.\<close>

fun le_bytes :: "nat \<Rightarrow> int \<Rightarrow> byte list" where
  "le_bytes 0 v = []"
| "le_bytes (Suc n) v = word_of_int v # le_bytes n (v div 256)"

definition native_bytes :: "byteorder \<Rightarrow> nat \<Rightarrow> int \<Rightarrow> byte list" where
  "native_bytes bo n v =
     (case bo of LittleEndian \<Rightarrow> le_bytes n v | BigEndian \<Rightarrow> rev (le_bytes n v))"

text \<open>The format characters that the source writes: \<^verbatim>\<open>i\<close>, \<^verbatim>\<open>f\<close>,
  \<^verbatim>\<open>d\<close> and \<^verbatim>\<open>c\<close>.\<close>

datatype fcode = Fmt_i | Fmt_f | Fmt_d | Fmt_c

fun fsize :: "fcode \<Rightarrow> nat" where
  "fsize Fmt_i = 4"
| "fsize Fmt_f = 4"
| "fsize Fmt_d = 8"
| "fsize Fmt_c = 1"

text \<open>White space, which a format string may hold between format characters.\<close>

definition white_space :: "char \<Rightarrow> bool" where
  "white_space c =
     (c = CHR '' '' \<or> c = CHR 0x09 \<or> c = CHR 0x0A \<or> c = CHR 0x0B \<or> c = CHR 0x0C \<or>
      c = CHR 0x0D)"

text \<open>The characters of the formats that are modelled.\<close>

definition modelled :: "char \<Rightarrow> bool" where
  "modelled c =
     (white_space c \<or> c = CHR ''i'' \<or> c = CHR ''f'' \<or> c = CHR ''d'' \<or> c = CHR ''c'')"

text \<open>
  Parsing a format string of modelled characters: white space is skipped. The last
  branch is for other characters, which \<open>struct_pack\<close> below never passes.
\<close>

fun fmt_codes :: "string \<Rightarrow> error + fcode list" where
  "fmt_codes [] = Inr []"
| "fmt_codes (c # cs) =
     (if white_space c then fmt_codes cs
      else case (if c = CHR ''i'' then Some Fmt_i else if c = CHR ''f'' then Some Fmt_f
                 else if c = CHR ''d'' then Some Fmt_d else if c = CHR ''c'' then Some Fmt_c
                 else None) of
             None \<Rightarrow> Inl StructError
           | Some k \<Rightarrow> (case fmt_codes cs of Inl e \<Rightarrow> Inl e | Inr ks \<Rightarrow> Inr (k # ks)))"

text \<open>
  Packing one argument. \<^verbatim>\<open>i\<close> takes an integer in the range of a signed 32-bit
  integer; \<^verbatim>\<open>d\<close> and \<^verbatim>\<open>f\<close> take a number; \<^verbatim>\<open>c\<close> takes a bytes object of
  length 1. Anything else raises \<^verbatim>\<open>struct.error\<close>.
\<close>

definition to_double :: "platform \<Rightarrow> pyval \<Rightarrow> error + 64 word" where
  "to_double p v =
     (case v of PyFloat d \<Rightarrow> Inr d | PyInt n \<Rightarrow> as_double p n | PyBytes b \<Rightarrow> Inl StructError)"

fun pack_item :: "platform \<Rightarrow> fcode \<Rightarrow> pyval \<Rightarrow> error + byte list" where
  "pack_item p Fmt_i v =
     (case v of
        PyInt n \<Rightarrow>
          (if - (2 ^ 31) \<le> n \<and> n < 2 ^ 31 then Inr (native_bytes (byteorder p) 4 n)
           else Inl StructError)
      | PyFloat d \<Rightarrow> Inl StructError
      | PyBytes b \<Rightarrow> Inl StructError)"
| "pack_item p Fmt_d v =
     (case to_double p v of
        Inl e \<Rightarrow> Inl e
      | Inr d \<Rightarrow> Inr (native_bytes (byteorder p) 8 (uint d)))"
| "pack_item p Fmt_f v =
     (case to_double p v of
        Inl e \<Rightarrow> Inl e
      | Inr d \<Rightarrow>
          (case narrow p d of
             Inl e \<Rightarrow> Inl e
           | Inr s \<Rightarrow> Inr (native_bytes (byteorder p) 4 (uint s))))"
| "pack_item p Fmt_c v =
     (case v of
        PyBytes b \<Rightarrow> (if length b = 1 then Inr b else Inl StructError)
      | PyInt n \<Rightarrow> Inl StructError
      | PyFloat d \<Rightarrow> Inl StructError)"

text \<open>
  Packing the arguments one after the other into a zeroed buffer. In native mode each
  field starts at the next offset that is a multiple of its size, the gap being zero
  bytes; \<open>off\<close> is the offset reached so far.
\<close>

definition padding :: "fcode \<Rightarrow> nat \<Rightarrow> nat" where
  "padding k off = (fsize k - off mod fsize k) mod fsize k"

fun pack_fields :: "platform \<Rightarrow> fcode list \<Rightarrow> pyval list \<Rightarrow> nat \<Rightarrow> error + byte list" where
  "pack_fields p [] [] off = Inr []"
| "pack_fields p (k # ks) (v # vs) off =
     (case pack_item p k v of
        Inl e \<Rightarrow> Inl e
      | Inr bs \<Rightarrow>
          (case pack_fields p ks vs (off + padding k off + fsize k) of
             Inl e \<Rightarrow> Inl e
           | Inr rest \<Rightarrow> Inr (replicate (padding k off) 0 @ bs @ rest)))"
| "pack_fields p [] (v # vs) off = Inl StructError"
| "pack_fields p (k # ks) [] off = Inl StructError"

text \<open>\<^verbatim>\<open>struct.pack(fmt, *args)\<close> on a format of modelled characters: the number of
  arguments is checked first.\<close>

definition pack_modelled :: "platform \<Rightarrow> string \<Rightarrow> pyval list \<Rightarrow> error + byte list" where
  "pack_modelled p fmt args =
     (case fmt_codes fmt of
        Inl e \<Rightarrow> Inl e
      | Inr ks \<Rightarrow>
          (if length ks \<noteq> length args then Inl StructError else pack_fields p ks args 0))"

text \<open>\<^verbatim>\<open>struct.pack(fmt, *args)\<close> on any format.\<close>

definition struct_pack :: "platform \<Rightarrow> string \<Rightarrow> pyval list \<Rightarrow> error + byte list" where
  "struct_pack p fmt args =
     (if list_all modelled fmt then pack_modelled p fmt args else pack_other p fmt args)"

section \<open>The header encoder\<close>

text \<open>The float literals \<^verbatim>\<open>0.0\<close> and \<^verbatim>\<open>1.0\<close> of the source, and their
  binary64 patterns.\<close>

definition double_0_0 :: "64 word" where
  "double_0_0 = 0"

definition double_1_0 :: "64 word" where
  "double_1_0 = 0x3FF0000000000000"

definition float_0_0 :: pyval where
  "float_0_0 = PyFloat double_0_0"

definition float_1_0 :: pyval where
  "float_1_0 = PyFloat double_1_0"

text \<open>The format string of \<^verbatim>\<open>read_header\<close>, with its two line continuations joined.\<close>

definition header_format :: string where
  "header_format =
     ''iiiiii dddddd d d i i iiiiii i i dddd ii cccc'' @
     ''    cccccccccccccccccccccccccccccccccccccccccccccccccccccccccccccccc'' @
     ''    cccccccccccccccccccc''"

text \<open>The list \<^verbatim>\<open>h_data\<close> as \<^verbatim>\<open>read_header\<close> appends to it, in order.\<close>

definition h_data :: "int list \<Rightarrow> pyval list" where
  "h_data n_part =
     map PyInt n_part @
     replicate 6 float_0_0 @
     [float_0_0] @
     [float_0_0] @
     [PyInt 0] @
     [PyInt 0] @
     map PyInt n_part @
     [PyInt 0] @
     [PyInt 1] @
     [float_0_0] @
     [float_0_0] @
     [float_0_0] @
     [float_1_0] @
     [PyInt 0] @
     [PyInt 0] @
     replicate 88 (PyBytes [0])"

definition read_header :: "platform \<Rightarrow> int list \<Rightarrow> error + byte list" where
  "read_header p n_part = struct_pack p header_format (h_data n_part)"

section \<open>The block writer\<close>

text \<open>
  The file object \<^verbatim>\<open>f\<close> is the state: the bytes written to it so far. An action
  on the file returns the exception it raised, if any, and the file as it then is; the
  bytes written before an exception stay written.
\<close>

type_synonym sink = "byte list"
type_synonym io = "sink \<Rightarrow> error option \<times> sink"

definition f_write :: "byte list \<Rightarrow> io" where
  "f_write d f = (None, f @ d)"

definition raise_io :: "error \<Rightarrow> io" where
  "raise_io e f = (Some e, f)"

definition skip_io :: io where
  "skip_io f = (None, f)"

definition then_io :: "io \<Rightarrow> io \<Rightarrow> io" where
  "then_io a b f = (case a f of (None, f') \<Rightarrow> b f' | (Some e, f') \<Rightarrow> (Some e, f'))"

text \<open>\<^verbatim>\<open>f.write(struct.pack(...))\<close>: the argument is packed before anything is written.\<close>

definition write_packed :: "error + byte list \<Rightarrow> io" where
  "write_packed r = (case r of Inl e \<Rightarrow> raise_io e | Inr d \<Rightarrow> f_write d)"

fun write_dummy :: "platform \<Rightarrow> int list \<Rightarrow> io" where
  "write_dummy p [] = skip_io"
| "write_dummy p (i # values_list) =
     then_io (write_packed (struct_pack p ''i'' [PyInt i])) (write_dummy p values_list)"

text \<open>
  The data of a block is a bytes object (the packed header) or a sequence of numbers.
  \<open>len\<close> is Python's \<^verbatim>\<open>len\<close>, and \<open>elements\<close> is what \<^verbatim>\<open>*block_data\<close>
  unpacks to: iterating a bytes object gives its bytes as integers.
\<close>

datatype block_data = Raw "byte list" | Elems "pyval list"

fun len :: "block_data \<Rightarrow> nat" where
  "len (Raw b) = length b"
| "len (Elems xs) = length xs"

fun elements :: "block_data \<Rightarrow> pyval list" where
  "elements (Raw b) = map (\<lambda>x. PyInt (uint x)) b"
| "elements (Elems xs) = xs"

text \<open>The argument \<^verbatim>\<open>data_type\<close> is a string, any format that the caller chooses,
  or \<^verbatim>\<open>None\<close>.\<close>

type_synonym data_type = "string option"

text \<open>\<^verbatim>\<open>data_type * n\<close>: a string repeated, or a \<^verbatim>\<open>TypeError\<close> for \<^verbatim>\<open>None\<close>.\<close>

fun repeat_type :: "data_type \<Rightarrow> nat \<Rightarrow> error + string" where
  "repeat_type (Some s) n = Inr (concat (replicate n s))"
| "repeat_type None n = Inl TypeError"

text \<open>
  \<^verbatim>\<open>bytes(i, 'utf-8')\<close> for a character of the block name. A \<open>char\<close> stands for
  the code point of the same number, so names are over the code points below 256; those
  from 128 on take two bytes.
\<close>

definition utf8 :: "char \<Rightarrow> byte list" where
  "utf8 c =
     (let n = of_char c :: nat
      in if n < 128 then [of_nat n] else [of_nat (192 + n div 64), of_nat (128 + n mod 64)])"

definition block_name_binary :: "string \<Rightarrow> pyval list" where
  "block_name_binary block_name = map (\<lambda>i. PyBytes (utf8 i)) block_name"

text \<open>Lines 231 to 235: the format of the payload and its declared size. In the
  \<^verbatim>\<open>HEAD\<close> branch \<^verbatim>\<open>fmt\<close> stays unbound; it is not used there.\<close>

definition block_format :: "block_data \<Rightarrow> data_type \<Rightarrow> string \<Rightarrow> error + (string \<times> int)" where
  "block_format block_data data_type block_name =
     (if block_name = ''HEAD'' then Inr ([], 256)
      else case repeat_type data_type (len block_data) of
             Inl e \<Rightarrow> Inl e
           | Inr fmt \<Rightarrow> Inr (fmt, int (len block_data) * 4))"

text \<open>Lines 238 to 241: the payload. \<^verbatim>\<open>f.write\<close> takes a bytes object only.\<close>

definition block_payload :: "platform \<Rightarrow> block_data \<Rightarrow> string \<Rightarrow> string \<Rightarrow> error + byte list" where
  "block_payload p block_data fmt block_name =
     (if block_name = ''HEAD'' then
        (case block_data of Raw b \<Rightarrow> Inr b | Elems xs \<Rightarrow> Inl TypeError)
      else struct_pack p fmt (elements block_data))"

definition write_block :: "platform \<Rightarrow> block_data \<Rightarrow> data_type \<Rightarrow> string \<Rightarrow> io" where
  "write_block p block_data data_type block_name =
     then_io (write_dummy p [8])
    (then_io (write_packed (struct_pack p (replicate 4 CHR ''c'') (block_name_binary block_name)))
       (case block_format block_data data_type block_name of
          Inl e \<Rightarrow> raise_io e
        | Inr (fmt, nbytes) \<Rightarrow>
            then_io (write_dummy p [nbytes + 8, 8, nbytes])
           (then_io (write_packed (block_payload p block_data fmt block_name))
                    (write_dummy p [nbytes]))))"

section \<open>The snapshot writer\<close>

text \<open>
  The result of \<^verbatim>\<open>write_snapshot\<close> is the exception it raised, if any, and the
  content of the output file: \<open>None\<close> when the file was never opened, otherwise the
  bytes written to the freshly opened file up to the return or the exception. The four
  mandatory arrays and, for a positive gas count, the three gas arrays are fetched by
  index before anything else happens; an index beyond the list raises
  \<^verbatim>\<open>IndexError\<close>. Failures of the file system itself are not modelled.
\<close>

definition write_snapshot ::
  "platform \<Rightarrow> int list \<Rightarrow> block_data list \<Rightarrow> string \<Rightarrow> error option \<times> sink option" where
  "write_snapshot p n_part data_list file_format =
     (if n_part = [] then (Some IndexError, None)
      else let N_gas = n_part ! 0 in
      if length data_list < 4 then (Some IndexError, None)
      else let pos_data = data_list ! 0; vel_data = data_list ! 1;
               ID_data = data_list ! 2; mass_data = data_list ! 3 in
      if N_gas > 0 \<and> length data_list < 7 then (Some IndexError, None)
      else
      if file_format = ''gadget2'' then
        (case read_header p n_part of
           Inl e \<Rightarrow> (Some e, None)
         | Inr header_data \<Rightarrow>
             (case
                then_io (write_block p (Raw header_data) None ''HEAD'')
               (then_io (write_block p pos_data (Some ''f'') ''POS '')
               (then_io (write_block p vel_data (Some ''f'') ''VEL '')
               (then_io (write_block p ID_data (Some ''i'') ''ID  '')
               (then_io (write_block p mass_data (Some ''f'') ''MASS'')
                  (if N_gas > 0 then
                     then_io (write_block p (data_list ! 4) (Some ''f'') ''U   '')
                    (then_io (if length data_list > 7
                              then write_block p (data_list ! 7) (Some ''f'') ''Z   ''
                              else skip_io)
                    (then_io (write_block p (data_list ! 5) (Some ''f'') ''RHO '')
                             (write_block p (data_list ! 6) (Some ''f'') ''HSML'')))
                   else skip_io))))) []
              of (r, f) \<Rightarrow> (r, Some f)))
      else (Some ValueError, None))"

section \<open>The configuration reader\<close>

datatype pytype = T_list | T_float | T_int

definition header_typing :: "(string \<times> pytype) list" where
  "header_typing =
     [(''mass_array'', T_list),
      (''time'', T_float),
      (''redshift'', T_float),
      (''flag_sfr'', T_int),
      (''flag_cooling'', T_int),
      (''flag_feedback'', T_int),
      (''num_files'', T_int),
      (''boxsize'', T_float),
      (''omega0'', T_float),
      (''omega_lambda'', T_float),
      (''hubble_param'', T_float),
      (''flag_age'', T_int),
      (''flag_metals'', T_int)]"

text \<open>
  A parsed document: its top-level tables in the order of the file, each a dictionary
  from keys to values, in insertion order. What \<^verbatim>\<open>toml.load\<close> did is an input of the
  model: it raised one of the two exceptions the source catches, or returned a document.
\<close>

datatype toml =
  TInteger int | TFloat "64 word" | TString string | TBoolean bool | TArray "toml list"

type_synonym table = "(string \<times> toml) list"

datatype toml_load = FileNotFoundError | TomlDecodeError | Loaded "(string \<times> table) list"

text \<open>\<^verbatim>\<open>header[key] = v\<close> on a dictionary in insertion order.\<close>

fun assign :: "string \<Rightarrow> toml \<Rightarrow> table \<Rightarrow> table" where
  "assign key v [] = [(key, v)]"
| "assign key v ((k, w) # rest) =
     (if k = key then (k, v) # rest else (k, w) # assign key v rest)"

text \<open>
  The loop \<^verbatim>\<open>for key, value in header\<close>. Iterating a dictionary gives its keys, and
  each key, a string, is unpacked into the two targets: that raises \<^verbatim>\<open>ValueError\<close>
  unless the key has exactly two characters, which then are \<^verbatim>\<open>key\<close> and
  \<^verbatim>\<open>value\<close>. \<open>call\<close> stands for calling \<^verbatim>\<open>list\<close>, \<^verbatim>\<open>float\<close> or
  \<^verbatim>\<open>int\<close> on a string, which are builtins of the language. Storing under a key the
  dictionary does not have changes its size, and the iteration then raises
  \<^verbatim>\<open>RuntimeError\<close>.
\<close>

fun coerce_header ::
  "(pytype \<Rightarrow> string \<Rightarrow> error + toml) \<Rightarrow> table \<Rightarrow> string list \<Rightarrow> error + table" where
  "coerce_header call header [] = Inr header"
| "coerce_header call header (k # ks) =
     (if length k \<noteq> 2 then Inl ValueError
      else let key = [k ! 0]; value = [k ! 1] in
        case map_of header_typing key of
          None \<Rightarrow> Inl KeyError
        | Some ty \<Rightarrow>
            (case call ty value of
               Inl e \<Rightarrow> Inl e
             | Inr v \<Rightarrow>
                 (if key \<in> set (map fst header)
                  then coerce_header call (assign key v header) ks
                  else Inl RuntimeError)))"

text \<open>
  The source returns nothing; the result of the model is the \<^verbatim>\<open>HEADER\<close> dictionary
  as the function leaves it.
\<close>

definition read_configuration_file ::
  "(pytype \<Rightarrow> string \<Rightarrow> error + toml) \<Rightarrow> toml_load \<Rightarrow> error + table" where
  "read_configuration_file call loaded =
     (case loaded of
        FileNotFoundError \<Rightarrow> Inl OSError
      | TomlDecodeError \<Rightarrow> Inl SyntaxError
      | Loaded configuration_data \<Rightarrow>
          (case map_of configuration_data ''HEADER'' of
             None \<Rightarrow> Inl SyntaxError
           | Some header \<Rightarrow>
               (let missing_headers =
                      filter (\<lambda>i. i \<notin> set (map fst header)) (map fst header_typing)
                in if length missing_headers \<noteq> 0 then Inl SyntaxError
                   else coerce_header call header (map fst header))))"

section \<open>Reading the format back\<close>

text \<open>
  The definitions of this section are not taken from the source. They say what the bytes
  of a file mean to a program that reads the format on a host of byte order \<open>bo\<close>, and
  the theorems below compare what the writer produces with them.
\<close>

text \<open>The range of a signed 32-bit integer.\<close>

definition int32 :: "int \<Rightarrow> bool" where
  "int32 n = (- (2 ^ 31) \<le> n \<and> n < 2 ^ 31)"

text \<open>The unsigned number that a sequence of bytes holds, least significant byte first.\<close>

fun le_value :: "byte list \<Rightarrow> int" where
  "le_value [] = 0"
| "le_value (b # bs) = uint b + 256 * le_value bs"

text \<open>The same in the byte order of a host: a big-endian host stores the most
  significant byte first.\<close>

definition native_value :: "byteorder \<Rightarrow> byte list \<Rightarrow> int" where
  "native_value bo bs =
     (case bo of LittleEndian \<Rightarrow> le_value bs | BigEndian \<Rightarrow> le_value (rev bs))"

text \<open>An unsigned number of \<open>n\<close> bytes read as two's complement.\<close>

definition signed_value :: "nat \<Rightarrow> int \<Rightarrow> int" where
  "signed_value n u = (if u < 2 ^ (8 * n - 1) then u else u - 2 ^ (8 * n))"

text \<open>The signed 32-bit integer and the binary64 pattern at an offset of a file.\<close>

definition int_at :: "byteorder \<Rightarrow> nat \<Rightarrow> byte list \<Rightarrow> int" where
  "int_at bo off bs = signed_value 4 (native_value bo (take 4 (drop off bs)))"

definition double_at :: "byteorder \<Rightarrow> nat \<Rightarrow> byte list \<Rightarrow> 64 word" where
  "double_at bo off bs = word_of_int (native_value bo (take 8 (drop off bs)))"


text \<open>A marker: four bytes that hold a given integer.\<close>

definition marker :: "byteorder \<Rightarrow> int \<Rightarrow> byte list \<Rightarrow> bool" where
  "marker bo v m = (length m = 4 \<and> int_at bo 0 m = v)"

text \<open>
  The header record of the format and its fields at their offsets:
  six counts of 4 bytes, six masses of 8 bytes, time, redshift, two flags, six total
  counts, the cooling flag, the number of files, box size, \<open>Omega0\<close>, \<open>OmegaLambda\<close>,
  the Hubble parameter, two flags, and the fill up to 256 bytes.
\<close>

record header_record =
  npart :: "int list"
  massarr :: "64 word list"
  time :: "64 word"
  redshift :: "64 word"
  flag_sfr :: int
  flag_feedback :: int
  npart_total :: "int list"
  flag_cooling :: int
  num_files :: int
  boxsize :: "64 word"
  omega0 :: "64 word"
  omega_lambda :: "64 word"
  hubble_param :: "64 word"
  flag_age :: int
  flag_metals :: int
  fill :: "byte list"

definition decode_header :: "byteorder \<Rightarrow> byte list \<Rightarrow> header_record" where
  "decode_header bo h =
     \<lparr>npart = map (\<lambda>i. int_at bo (4 * i) h) [0..<6],
      massarr = map (\<lambda>i. double_at bo (24 + 8 * i) h) [0..<6],
      time = double_at bo 72 h,
      redshift = double_at bo 80 h,
      flag_sfr = int_at bo 88 h,
      flag_feedback = int_at bo 92 h,
      npart_total = map (\<lambda>i. int_at bo (96 + 4 * i) h) [0..<6],
      flag_cooling = int_at bo 120 h,
      num_files = int_at bo 124 h,
      boxsize = double_at bo 128 h,
      omega0 = double_at bo 136 h,
      omega_lambda = double_at bo 144 h,
      hubble_param = double_at bo 152 h,
      flag_age = int_at bo 160 h,
      flag_metals = int_at bo 164 h,
      fill = drop 168 h\<rparr>"

text \<open>The bytes of a name of ASCII characters.\<close>

definition ascii :: "string \<Rightarrow> byte list" where
  "ascii name = map of_char name"

text \<open>
  A reader of the block structure. Each block is the marker 8, the four bytes of the
  name, the markers \<open>nbytes + 8\<close>, 8 and \<open>nbytes\<close>, the payload of \<open>nbytes\<close> bytes
  and the marker \<open>nbytes\<close> again. The reader checks every marker and returns the names
  and payloads in the order of the file, or \<open>None\<close> for a file that is not a sequence
  of such blocks.
\<close>

function read_blocks :: "byteorder \<Rightarrow> byte list \<Rightarrow> (string \<times> byte list) list option" where
  "read_blocks bo bs =
     (if bs = [] then Some []
      else let nbytes = int_at bo 16 bs in
        if 24 \<le> length bs \<and> 0 \<le> nbytes \<and> 24 + nat nbytes \<le> length bs \<and>
           int_at bo 0 bs = 8 \<and> int_at bo 8 bs = nbytes + 8 \<and> int_at bo 12 bs = 8 \<and>
           int_at bo (20 + nat nbytes) bs = nbytes
        then (case read_blocks bo (drop (24 + nat nbytes) bs) of
                None \<Rightarrow> None
              | Some blocks \<Rightarrow>
                  Some ((map (\<lambda>b. char_of (uint b)) (take 4 (drop 4 bs)),
                         take (nat nbytes) (drop 20 bs)) # blocks))
        else None)"
  by pat_completeness auto
termination
  by (relation "measure (\<lambda>(bo, bs). length bs)") auto

declare read_blocks.simps [simp del]





section \<open>Auxiliary definitions of the proofs\<close>

text \<open>The format of the header, parsed.\<close>

definition header_codes :: "fcode list" where
  "header_codes =
     replicate 6 Fmt_i @ replicate 6 Fmt_d @ [Fmt_d, Fmt_d, Fmt_i, Fmt_i] @
     replicate 6 Fmt_i @ [Fmt_i, Fmt_i] @ replicate 4 Fmt_d @ [Fmt_i, Fmt_i] @
     replicate 88 Fmt_c"

text \<open>The bytes of the header, field by field.\<close>

definition header_bytes :: "byteorder \<Rightarrow> int list \<Rightarrow> byte list" where
  "header_bytes bo n_part =
     concat (map (native_bytes bo 4) n_part) @
     concat (replicate 6 (native_bytes bo 8 (uint double_0_0))) @
     native_bytes bo 8 (uint double_0_0) @
     native_bytes bo 8 (uint double_0_0) @
     native_bytes bo 4 0 @
     native_bytes bo 4 0 @
     concat (map (native_bytes bo 4) n_part) @
     native_bytes bo 4 0 @
     native_bytes bo 4 1 @
     native_bytes bo 8 (uint double_0_0) @
     native_bytes bo 8 (uint double_0_0) @
     native_bytes bo 8 (uint double_0_0) @
     native_bytes bo 8 (uint double_1_0) @
     native_bytes bo 4 0 @
     native_bytes bo 4 0 @
     replicate 88 0"

text \<open>The bytes of a block, given its name, declared size and payload.\<close>

definition framed :: "byteorder \<Rightarrow> string \<Rightarrow> int \<Rightarrow> byte list \<Rightarrow> byte list" where
  "framed bo name nbytes payload =
     native_bytes bo 4 8 @ ascii name @ native_bytes bo 4 (nbytes + 8) @
     native_bytes bo 4 8 @ native_bytes bo 4 nbytes @ payload @ native_bytes bo 4 nbytes"



section \<open>Two hosts for the examples\<close>

text \<open>
  A little-endian and a big-endian host. Their two conversions are tabulated for the
  numbers that the examples use, 0 and 1, and the examples use modelled formats only;
  the theorems hold for every host.
\<close>

definition table_as_double :: "int \<Rightarrow> error + 64 word" where
  "table_as_double n =
     (if n = 0 then Inr double_0_0 else if n = 1 then Inr double_1_0 else Inl OverflowError)"

definition table_narrow :: "64 word \<Rightarrow> error + 32 word" where
  "table_narrow d =
     (if d = double_0_0 then Inr 0 else if d = double_1_0 then Inr 0x3F800000
      else Inl OverflowError)"

definition no_other_format :: "string \<Rightarrow> pyval list \<Rightarrow> error + byte list" where
  "no_other_format fmt args = Inl StructError"

definition le_host :: platform where
  "le_host =
     \<lparr>byteorder = LittleEndian, as_double = table_as_double, narrow = table_narrow,
      pack_other = no_other_format\<rparr>"


section \<open>Properties of the packing functions\<close>

lemma length_le_bytes [simp]: "length (le_bytes n v) = n"
  by (induction n arbitrary: v) auto

lemma length_native_bytes [simp]: "length (native_bytes bo n v) = n"
  by (simp add: native_bytes_def split: byteorder.splits)

lemma le_value_le_bytes: "le_value (le_bytes n v) = v mod 256 ^ n"
proof (induction n arbitrary: v)
  case 0
  show ?case by simp
next
  case (Suc n)
  have "uint (word_of_int v :: byte) = v mod 256"
    by (simp add: uint_word_of_int)
  moreover have "v mod (256 * 256 ^ n) = 256 * (v div 256 mod 256 ^ n) + v mod 256"
    by (rule zmod_zmult2_eq) simp
  ultimately show ?case
    using Suc [of "v div 256"] by simp
qed

lemma native_value_native_bytes: "native_value bo (native_bytes bo n v) = v mod 256 ^ n"
  by (cases bo) (simp_all add: native_value_def native_bytes_def le_value_le_bytes)

lemma signed_value_mod:
  assumes "- (2 ^ 31) \<le> v" "v < 2 ^ 31"
  shows "signed_value 4 (v mod 256 ^ 4) = (v::int)"
proof (cases "0 \<le> v")
  case True
  then have "v mod 256 ^ 4 = v" using assms by simp
  then show ?thesis using assms by (simp add: signed_value_def)
next
  case False
  have "(v + 4294967296) mod 4294967296 = v + 4294967296"
    by (rule mod_pos_pos_trivial) (use assms False in simp_all)
  then have "v mod 4294967296 = v + 4294967296"
    by simp
  then show ?thesis using assms False by (simp add: signed_value_def)
qed

lemma int_at_native_bytes:
  assumes "- (2 ^ 31) \<le> v" "v < 2 ^ 31" "length pre = off"
  shows "int_at bo off (pre @ native_bytes bo 4 v @ post) = v"
  using assms signed_value_mod [of v]
  by (simp add: int_at_def native_value_native_bytes)

lemma double_at_native_bytes:
  assumes "length pre = off"
  shows "double_at bo off (pre @ native_bytes bo 8 (uint d) @ post) = d"
proof -
  have "uint d mod 18446744073709551616 = uint d"
    using uint_lt2p [of d] by simp
  then show ?thesis
    using assms by (simp add: double_at_def native_value_native_bytes)
qed

lemma fmt_codes_header: "fmt_codes header_format = Inr header_codes"
  by (simp add: header_format_def header_codes_def white_space_def eval_nat_numeral)

lemma struct_pack_header: "struct_pack p header_format args = pack_modelled p header_format args"
  by (simp add: struct_pack_def header_format_def modelled_def white_space_def)

lemma length_h_data: "length (h_data n_part) = 2 * length n_part + 106"
  by (simp add: h_data_def)

lemma read_header_wrong_length: "length n_part \<noteq> 6 \<Longrightarrow> read_header p n_part = Inl StructError"
  by (simp add: read_header_def struct_pack_header pack_modelled_def fmt_codes_header length_h_data header_codes_def)

lemma pack_item_i: "int32 n \<Longrightarrow> pack_item p Fmt_i (PyInt n) = Inr (native_bytes (byteorder p) 4 n)"
  by (simp add: int32_def)

lemma pack_item_d: "pack_item p Fmt_d (PyFloat d) = Inr (native_bytes (byteorder p) 8 (uint d))"
  by (simp add: to_double_def)

lemma list_of_length_6:
  "length xs = 6 \<Longrightarrow> \<exists>a b c d e f. xs = [a, b, c, d, e, f]"
  by (auto simp: length_Suc_conv eval_nat_numeral)

lemma replicate_6: "replicate 6 x = [x, x, x, x, x, x]"
  by (simp add: eval_nat_numeral)

lemma replicate_4: "replicate 4 x = [x, x, x, x]"
  by (simp add: eval_nat_numeral)

lemma pack_fields_chars:
  "pack_fields p (replicate n Fmt_c) (replicate n (PyBytes [0])) off = Inr (replicate n 0)"
  by (induction n arbitrary: off) (simp_all add: padding_def)

lemma pack_fields_append:
  assumes "pack_fields p ks1 vs1 off = Inr b1"
  shows "pack_fields p (ks1 @ ks2) (vs1 @ vs2) off =
     (case pack_fields p ks2 vs2 (off + length b1) of Inl e \<Rightarrow> Inl e | Inr b2 \<Rightarrow> Inr (b1 @ b2))"
  using assms
proof (induction p ks1 vs1 off arbitrary: b1 rule: pack_fields.induct)
  case (1 p off)
  then show ?case by (simp split: sum.splits)
next
  case (2 p k ks v vs off)
  from "2.prems" obtain bs rest where
    bs: "pack_item p k v = Inr bs" and
    rest: "pack_fields p ks vs (off + padding k off + fsize k) = Inr rest" and
    b1: "b1 = replicate (padding k off) 0 @ bs @ rest"
    by (auto split: sum.splits)
  have len: "length bs = fsize k"
    using bs by (cases k) (auto simp: to_double_def split: pyval.splits if_splits sum.splits)
  show ?case
    using "2.IH" [OF bs rest] bs rest b1 len
    by (simp add: add.assoc split: sum.splits)
next
  case (3 p v vs off)
  then show ?case by simp
next
  case (4 p k ks off)
  then show ?case by simp
qed

lemma pack_fields_head:
  assumes "int32 a" "int32 b" "int32 c" "int32 d" "int32 e" "int32 f"
  shows "pack_fields p
     ([Fmt_i, Fmt_i, Fmt_i, Fmt_i, Fmt_i, Fmt_i, Fmt_d, Fmt_d, Fmt_d, Fmt_d, Fmt_d, Fmt_d,
       Fmt_d, Fmt_d, Fmt_i, Fmt_i, Fmt_i, Fmt_i, Fmt_i, Fmt_i, Fmt_i, Fmt_i, Fmt_i, Fmt_i,
       Fmt_d, Fmt_d, Fmt_d, Fmt_d, Fmt_i, Fmt_i])
     ([PyInt a, PyInt b, PyInt c, PyInt d, PyInt e, PyInt f,
       PyFloat double_0_0, PyFloat double_0_0, PyFloat double_0_0,
       PyFloat double_0_0, PyFloat double_0_0, PyFloat double_0_0,
       PyFloat double_0_0, PyFloat double_0_0, PyInt 0, PyInt 0,
       PyInt a, PyInt b, PyInt c, PyInt d, PyInt e, PyInt f, PyInt 0, PyInt 1,
       PyFloat double_0_0, PyFloat double_0_0, PyFloat double_0_0, PyFloat double_1_0,
       PyInt 0, PyInt 0]) 0 =
     Inr (take 168 (header_bytes (byteorder p) [a, b, c, d, e, f]))"
  using assms
  by (simp add: header_bytes_def padding_def replicate_6 pack_item_i pack_item_d int32_def
      del: pack_item.simps)

lemma header_bytes_split:
  "length n_part = 6 \<Longrightarrow>
   header_bytes bo n_part = take 168 (header_bytes bo n_part) @ replicate 88 0"
  by (auto simp: header_bytes_def replicate_6 dest!: list_of_length_6)

lemma read_header_six:
  assumes "int32 a" "int32 b" "int32 c" "int32 d" "int32 e" "int32 f"
  shows "read_header p [a, b, c, d, e, f] = Inr (header_bytes (byteorder p) [a, b, c, d, e, f])"
proof -
  let ?hb = "header_bytes (byteorder p) [a, b, c, d, e, f]"
  have len: "length (take 168 ?hb) = 168"
    by (simp add: header_bytes_def replicate_6)
  have "pack_fields p header_codes (h_data [a, b, c, d, e, f]) 0 =
        Inr (take 168 ?hb @ replicate 88 0)"
    unfolding header_codes_def h_data_def float_0_0_def float_1_0_def replicate_6 replicate_4
    using pack_fields_append [OF pack_fields_head [OF assms, of p],
        of "replicate 88 Fmt_c" "replicate 88 (PyBytes [0])"]
    by (simp add: pack_fields_chars)
  then show ?thesis
    using header_bytes_split [of "[a, b, c, d, e, f]" "byteorder p"]
    by (simp add: read_header_def struct_pack_header pack_modelled_def fmt_codes_header length_h_data)
       (simp add: header_codes_def)
qed

lemma pack_fields_items:
  assumes "pack_fields p ks vs off = Inr bs" "(k, v) \<in> set (zip ks vs)"
  shows "\<exists>b. pack_item p k v = Inr b"
  using assms
proof (induction p ks vs off arbitrary: bs rule: pack_fields.induct)
  case (2 p k' ks v' vs off)
  from "2.prems"(1) obtain b rest where
    b: "pack_item p k' v' = Inr b" and
    rest: "pack_fields p ks vs (off + padding k' off + fsize k') = Inr rest"
    by (auto split: sum.splits)
  show ?case
    using "2.prems"(2) b "2.IH" [OF b rest] by auto
qed simp_all

lemma read_header_six_range:
  assumes "read_header p [a, b, c, d, e, f] = Inr h"
  shows "int32 a \<and> int32 b \<and> int32 c \<and> int32 d \<and> int32 e \<and> int32 f"
proof -
  have pf: "pack_fields p header_codes (h_data [a, b, c, d, e, f]) 0 = Inr h"
    using assms
    by (simp add: read_header_def struct_pack_header pack_modelled_def fmt_codes_header split: if_splits)
  have "int32 n" if "n \<in> {a, b, c, d, e, f}" for n
  proof -
    have "(Fmt_i, PyInt n) \<in> set (zip header_codes (h_data [a, b, c, d, e, f]))"
      using that
      unfolding header_codes_def h_data_def float_0_0_def float_1_0_def replicate_6 replicate_4
      by auto
    from pack_fields_items [OF pf this] show ?thesis
      by (auto simp: int32_def split: if_splits)
  qed
  then show ?thesis by simp
qed

lemma length_header_bytes: "length n_part = 6 \<Longrightarrow> length (header_bytes bo n_part) = 256"
  by (auto simp: header_bytes_def replicate_6 dest!: list_of_length_6)

lemma read_header_Inr:
  assumes "read_header p n_part = Inr h"
  shows "length n_part = 6 \<and> (\<forall>n \<in> set n_part. int32 n) \<and> h = header_bytes (byteorder p) n_part"
proof -
  have six: "length n_part = 6"
    using assms read_header_wrong_length [of n_part p] by auto
  then obtain a b c d e f where n_part: "n_part = [a, b, c, d, e, f]"
    using list_of_length_6 by blast
  have ok: "int32 a \<and> int32 b \<and> int32 c \<and> int32 d \<and> int32 e \<and> int32 f"
    using assms read_header_six_range [of p a b c d e f h] unfolding n_part by auto
  then show ?thesis
    using assms six read_header_six [of a b c d e f p] unfolding n_part by auto
qed

lemma int_at_skip:
  "length x \<le> off \<Longrightarrow> int_at bo off (x @ ys) = int_at bo (off - length x) ys"
  by (simp add: int_at_def)

lemma int_at_here:
  "int32 v \<Longrightarrow> int_at bo 0 (native_bytes bo 4 v @ ys) = v"
  using int_at_native_bytes [of v "[]" 0 bo ys] by (simp add: int32_def)

lemma double_at_skip:
  "length x \<le> off \<Longrightarrow> double_at bo off (x @ ys) = double_at bo (off - length x) ys"
  by (simp add: double_at_def)

lemma double_at_here:
  "double_at bo 0 (native_bytes bo 8 (uint d) @ ys) = d"
  using double_at_native_bytes [of "[]" 0 bo d ys] by simp

lemma upt_0_6: "[0..<6] = [0, 1, 2, 3, 4, 5]"
  by (simp add: upt_rec)

lemma int32_0 [simp]: "int32 0" and int32_1 [simp]: "int32 1"
  by (simp_all add: int32_def)

lemma decode_header_bytes:
  assumes "int32 a" "int32 b" "int32 c" "int32 d" "int32 e" "int32 f"
  shows "decode_header bo (header_bytes bo [a, b, c, d, e, f]) =
     \<lparr>npart = [a, b, c, d, e, f],
      massarr = replicate 6 double_0_0,
      time = double_0_0,
      redshift = double_0_0,
      flag_sfr = 0,
      flag_feedback = 0,
      npart_total = [a, b, c, d, e, f],
      flag_cooling = 0,
      num_files = 1,
      boxsize = double_0_0,
      omega0 = double_0_0,
      omega_lambda = double_0_0,
      hubble_param = double_1_0,
      flag_age = 0,
      flag_metals = 0,
      fill = replicate 88 0\<rparr>"
  using assms
  by (simp add: decode_header_def header_bytes_def replicate_6 upt_0_6
      int_at_skip int_at_here double_at_skip double_at_here)

lemma then_io_None:
  "then_io a b f = (None, f') \<longleftrightarrow> (\<exists>f1. a f = (None, f1) \<and> b f1 = (None, f'))"
  by (auto simp: then_io_def split: prod.splits option.splits)

lemma struct_pack_i:
  "struct_pack p ''i'' [PyInt i] =
     (if int32 i then Inr (native_bytes (byteorder p) 4 i) else Inl StructError)"
  by (simp add: struct_pack_def pack_modelled_def modelled_def white_space_def padding_def
      int32_def)

lemma write_dummy_None:
  "write_dummy p vs f = (None, f') \<longleftrightarrow>
     list_all int32 vs \<and> f' = f @ concat (map (native_bytes (byteorder p) 4) vs)"
proof (induction vs arbitrary: f)
  case Nil
  show ?case by (auto simp: skip_io_def)
next
  case (Cons v vs)
  show ?case
    by (auto simp: then_io_None Cons struct_pack_i write_packed_def raise_io_def f_write_def
        simp del: fmt_codes.simps)
qed

lemma fmt_codes_replicate_f: "fmt_codes (replicate n CHR ''f'') = Inr (replicate n Fmt_f)"
  by (induction n) (simp_all add: white_space_def)

lemma fmt_codes_replicate_i: "fmt_codes (replicate n CHR ''i'') = Inr (replicate n Fmt_i)"
  by (induction n) (simp_all add: white_space_def)

lemma fmt_codes_replicate_c: "fmt_codes (replicate n CHR ''c'') = Inr (replicate n Fmt_c)"
  by (induction n) (simp_all add: white_space_def)

lemma pack_item_length: "pack_item p k v = Inr bs \<Longrightarrow> length bs = fsize k"
  by (cases k) (auto simp: to_double_def split: pyval.splits if_splits sum.splits)

lemma pack_fields_words:
  assumes "pack_fields p ks vs off = Inr bs" "\<forall>k \<in> set ks. fsize k = 4" "off mod 4 = 0"
  shows "length bs = 4 * length ks"
  using assms
proof (induction p ks vs off arbitrary: bs rule: pack_fields.induct)
  case (2 p k ks v vs off)
  from "2.prems"(1) obtain b rest where
    b: "pack_item p k v = Inr b" and
    rest: "pack_fields p ks vs (off + padding k off + fsize k) = Inr rest" and
    bs: "bs = replicate (padding k off) 0 @ b @ rest"
    by (auto split: sum.splits)
  have k: "fsize k = 4" using "2.prems"(2) by simp
  have pad: "padding k off = 0" using "2.prems"(3) k by (simp add: padding_def)
  have "length rest = 4 * length ks"
    using "2.IH" [OF b rest] "2.prems"(2,3) k pad by simp
  then show ?case
    using pack_item_length [OF b] k pad bs by simp
qed simp_all

lemma pack_fields_name:
  "pack_fields p (replicate n Fmt_c) (block_name_binary name) off = Inr bs \<Longrightarrow>
     length name = n \<and> (\<forall>c \<in> set name. (of_char c :: nat) < 128) \<and> bs = ascii name"
proof (induction n arbitrary: name off bs)
  case 0
  then show ?case by (cases name) (simp_all add: block_name_binary_def ascii_def)
next
  case (Suc n)
  then obtain c cs where name: "name = c # cs"
    by (cases name) (simp_all add: block_name_binary_def)
  from Suc.prems obtain rest where
    c: "length (utf8 c) = 1" and
    rest: "pack_fields p (replicate n Fmt_c) (block_name_binary cs) (off + padding Fmt_c off + 1) = Inr rest"
    and bs: "bs = utf8 c @ rest"
    unfolding name by (auto simp: block_name_binary_def padding_def split: sum.splits if_splits)
  have small: "(of_char c :: nat) < 128" and one: "utf8 c = [of_char c]"
    using c by (auto simp: utf8_def Let_def of_nat_of_char split: if_splits)
  show ?case
    using Suc.IH [OF rest] small one bs by (simp add: name ascii_def)
qed

lemma struct_pack_name:
  "struct_pack p (replicate 4 CHR ''c'') (block_name_binary name) = Inr bs \<Longrightarrow>
     length name = 4 \<and> (\<forall>c \<in> set name. (of_char c :: nat) < 128) \<and> bs = ascii name"
  using pack_fields_name [of p 4 name 0 bs]
  by (simp add: struct_pack_def pack_modelled_def modelled_def list_all_iff
      fmt_codes_replicate_c split: if_splits)

lemma write_packed_None:
  "write_packed r f = (None, f') \<longleftrightarrow> (\<exists>d. r = Inr d \<and> f' = f @ d)"
  by (auto simp: write_packed_def raise_io_def f_write_def split: sum.splits)

lemma write_block_None:
  assumes "write_block p block_data data_type block_name f = (None, f')"
  shows "\<exists>fmt nbytes payload.
     block_format block_data data_type block_name = Inr (fmt, nbytes) \<and>
     block_payload p block_data fmt block_name = Inr payload \<and>
     length block_name = 4 \<and> int32 (nbytes + 8) \<and>
     f' = f @ framed (byteorder p) block_name nbytes payload"
proof -
  from assms obtain f1 f2 where
    f1: "write_dummy p [8] f = (None, f1)" and
    f2: "write_packed (struct_pack p (replicate 4 CHR ''c'') (block_name_binary block_name)) f1
           = (None, f2)" and
    rest: "(case block_format block_data data_type block_name of
              Inl e \<Rightarrow> raise_io e
            | Inr (fmt, nbytes) \<Rightarrow>
                then_io (write_dummy p [nbytes + 8, 8, nbytes])
               (then_io (write_packed (block_payload p block_data fmt block_name))
                        (write_dummy p [nbytes]))) f2 = (None, f')"
    unfolding write_block_def then_io_None by blast
  from rest obtain fmt nbytes where
    fmt: "block_format block_data data_type block_name = Inr (fmt, nbytes)"
    by (cases "block_format block_data data_type block_name") (auto simp: raise_io_def)
  from rest obtain f3 f4 where
    f3: "write_dummy p [nbytes + 8, 8, nbytes] f2 = (None, f3)" and
    f4: "write_packed (block_payload p block_data fmt block_name) f3 = (None, f4)" and
    f5: "write_dummy p [nbytes] f4 = (None, f')"
    unfolding fmt by (auto simp: then_io_None)
  from f4 obtain payload where
    payload: "block_payload p block_data fmt block_name = Inr payload" and f4': "f4 = f3 @ payload"
    unfolding write_packed_None by blast
  from f2 obtain nm where
    nm: "struct_pack p (replicate 4 CHR ''c'') (block_name_binary block_name) = Inr nm"
    and f2': "f2 = f1 @ nm"
    unfolding write_packed_None by blast
  note name = struct_pack_name [OF nm]
  show ?thesis
    using f1 f3 f5 f2' f4' fmt payload name
    by (simp add: write_dummy_None framed_def del: write_dummy.simps)
qed

lemma block_format_nbytes:
  assumes "block_format block_data data_type block_name = Inr (fmt, nbytes)"
  shows "nbytes = (if block_name = ''HEAD'' then 256 else int (len block_data) * 4)"
  using assms by (auto simp: block_format_def split: if_splits sum.splits)

lemma length_elements [simp]: "length (elements block_data) = len block_data"
  by (cases block_data) simp_all

lemma concat_replicate_char: "concat (replicate n [c]) = replicate n c"
  by (induction n) simp_all

lemma block_payload_length:
  assumes "block_format block_data data_type block_name = Inr (fmt, nbytes)"
    and "block_payload p block_data fmt block_name = Inr payload"
    and "block_name \<noteq> ''HEAD''"
    and "data_type = Some ''f'' \<or> data_type = Some ''i''"
  shows "int (length payload) = nbytes"
proof -
  from assms(1,3,4) obtain ks where
    ks: "fmt_codes fmt = Inr ks" "\<forall>k \<in> set ks. fsize k = 4" "length ks = len block_data"
    and md: "list_all modelled fmt"
    and nbytes: "nbytes = int (len block_data) * 4"
    by (auto simp: block_format_def concat_replicate_char fmt_codes_replicate_f
        fmt_codes_replicate_i modelled_def list_all_iff)
  from assms(2,3) ks md have "pack_fields p ks (elements block_data) 0 = Inr payload"
    by (simp add: block_payload_def struct_pack_def pack_modelled_def split: if_splits)
  from pack_fields_words [OF this ks(2)] show ?thesis
    using ks(3) nbytes by simp
qed

lemma char_of_byte [simp]: "char_of (uint (of_char c :: byte)) = c"
proof -
  have "uint (word_of_int (of_char c) :: byte) = of_char c mod 256"
    by (simp add: uint_word_of_int)
  then have "uint (of_char c :: byte) = of_char c"
    by (simp add: of_int_of_char)
  then show ?thesis by simp
qed

lemma length_ascii [simp]: "length (ascii name) = length name"
  by (simp add: ascii_def)

lemma chars_of_ascii [simp]: "map (\<lambda>b. char_of (uint b)) (ascii name) = name"
  by (simp add: ascii_def comp_def)



section \<open>The header encoder: claims\<close>

text \<open>
  Claim C4, as the code has it. For every sequence of exactly 6 particle counts, each
  non-negative and below \<open>2 ^ 31\<close>, \<^verbatim>\<open>read_header\<close> returns a byte sequence of
  exactly 256 bytes, on every host.
\<close>

theorem read_header_256:
  assumes "length n_part = 6" "\<forall>n \<in> set n_part. 0 \<le> n \<and> n < 2 ^ 31"
  shows "\<exists>h. read_header p n_part = Inr h \<and> length h = 256"
proof -
  from assms(1) obtain a b c d e f where n_part: "n_part = [a, b, c, d, e, f]"
    using list_of_length_6 by blast
  have "int32 a" "int32 b" "int32 c" "int32 d" "int32 e" "int32 f"
    using assms(2) unfolding n_part by (simp_all add: int32_def)
  from read_header_six [OF this] show ?thesis
    using length_header_bytes [OF assms(1)] unfolding n_part by simp
qed

theorem read_header_256_witness:
  "length [100, 50, 0, 0, 0, 0 :: int] = 6 \<and>
   list_all (\<lambda>n. 0 \<le> n \<and> n < 2 ^ 31) [100, 50, 0, 0, 0, 0 :: int] \<and>
   (\<exists>h. read_header le_host [100, 50, 0, 0, 0, 0] = Inr h \<and> length h = 256)"
  using read_header_256 [of "[100, 50, 0, 0, 0, 0]" le_host] by simp

text \<open>
  Claim C4 as stated, for all non-negative counts, fails: the format \<^verbatim>\<open>i\<close> is a
  signed 32-bit integer, and a count of \<open>2 ^ 31\<close> makes \<^verbatim>\<open>struct\<close> raise
  \<^verbatim>\<open>struct.error\<close>.
\<close>

theorem read_header_count_too_large:
  "read_header le_host [2147483648, 0, 0, 0, 0, 0] = Inl StructError"
  by (simp add: read_header_def struct_pack_header pack_modelled_def fmt_codes_header header_codes_def h_data_def
      replicate_6)

text \<open>
  Claim C8. For every particle-count sequence that does not have exactly 6 elements,
  \<^verbatim>\<open>read_header\<close> fails: \<^verbatim>\<open>struct\<close> counts the arguments before it packs any
  and raises \<^verbatim>\<open>struct.error\<close>. The encoder itself writes nothing, and
  \<^verbatim>\<open>write_snapshot\<close> with such a sequence raises without having opened the output
  file.
\<close>

theorem read_header_not_six:
  assumes "length n_part \<noteq> 6"
  shows "read_header p n_part = Inl StructError \<and>
     (\<exists>e. write_snapshot p n_part data_list file_format = (Some e, None))"
  using read_header_wrong_length [OF assms, of p]
  by (simp add: write_snapshot_def Let_def)

theorem read_header_not_six_witness:
  "length [10, 0, 0 :: int] \<noteq> 6 \<and> read_header le_host [10, 0, 0] = Inl StructError \<and>
   (\<exists>e. write_snapshot le_host [10, 0, 0] [] ''gadget2'' = (Some e, None))"
  using read_header_not_six [of "[10, 0, 0]" le_host "[]" "''gadget2''"] by simp

text \<open>
  Claim C10. The header that \<^verbatim>\<open>read_header\<close> produces has 256 bytes and is
  determined by the counts: read back in the byte order of the host, the counts and the
  total counts are the given counts, the six masses, the time, the redshift, the box size,
  \<open>Omega0\<close> and \<open>OmegaLambda\<close> are 0.0, the five flags are 0, the number of files is
  1, the Hubble parameter is 1.0 and the fill is 88 zero bytes. The function has no other
  argument than the counts, so no configuration reaches it.
\<close>

theorem read_header_fields:
  assumes "read_header p n_part = Inr h"
  shows "length h = 256 \<and>
     decode_header (byteorder p) h =
       \<lparr>npart = n_part,
        massarr = replicate 6 double_0_0,
        time = double_0_0,
        redshift = double_0_0,
        flag_sfr = 0,
        flag_feedback = 0,
        npart_total = n_part,
        flag_cooling = 0,
        num_files = 1,
        boxsize = double_0_0,
        omega0 = double_0_0,
        omega_lambda = double_0_0,
        hubble_param = double_1_0,
        flag_age = 0,
        flag_metals = 0,
        fill = replicate 88 0\<rparr>"
proof -
  from read_header_Inr [OF assms] have
    six: "length n_part = 6" and rng: "\<forall>n \<in> set n_part. int32 n" and
    h: "h = header_bytes (byteorder p) n_part"
    by simp_all
  from six obtain a b c d e f where n_part: "n_part = [a, b, c, d, e, f]"
    using list_of_length_6 by blast
  have "int32 a" "int32 b" "int32 c" "int32 d" "int32 e" "int32 f"
    using rng unfolding n_part by simp_all
  from decode_header_bytes [OF this] show ?thesis
    using length_header_bytes [OF six] unfolding h n_part by simp
qed

theorem read_header_fields_witness:
  "read_header le_host [100, 50, 0, 0, 0, 0] = Inr (header_bytes LittleEndian [100, 50, 0, 0, 0, 0]) \<and>
   length (header_bytes LittleEndian [100, 50, 0, 0, 0, 0]) = 256 \<and>
   decode_header LittleEndian (header_bytes LittleEndian [100, 50, 0, 0, 0, 0]) =
       \<lparr>npart = [100, 50, 0, 0, 0, 0],
        massarr = replicate 6 double_0_0,
        time = double_0_0,
        redshift = double_0_0,
        flag_sfr = 0,
        flag_feedback = 0,
        npart_total = [100, 50, 0, 0, 0, 0],
        flag_cooling = 0,
        num_files = 1,
        boxsize = double_0_0,
        omega0 = double_0_0,
        omega_lambda = double_0_0,
        hubble_param = double_1_0,
        flag_age = 0,
        flag_metals = 0,
        fill = replicate 88 0\<rparr>"
proof -
  have h: "read_header le_host [100, 50, 0, 0, 0, 0] =
      Inr (header_bytes LittleEndian [100, 50, 0, 0, 0, 0])"
    using read_header_six [of 100 50 0 0 0 0 le_host] by (simp add: int32_def le_host_def)
  show ?thesis
    using h read_header_fields [OF h] by (simp add: le_host_def)
qed

section \<open>The snapshot writer: failures\<close>

text \<open>
  Claim C6. When the gas count (index 0) is positive and the data list has fewer than
  the seven arrays that the writer then fetches, so that the internal-energy, density or
  smoothing-length array is absent, \<^verbatim>\<open>write_snapshot\<close> fails, whatever the format,
  and nothing is written: the output file is not even opened. The exception raised is
  Python's \<^verbatim>\<open>IndexError\<close>, which is the failure the specification calls
  \<open>MissingGasArrays\<close>.
\<close>

theorem missing_gas_arrays:
  assumes "n_part \<noteq> []" "0 < n_part ! 0" "length data_list < 7"
  shows "write_snapshot p n_part data_list file_format = (Some IndexError, None)"
  using assms by (simp add: write_snapshot_def Let_def)

theorem missing_gas_arrays_witness:
  "[10, 0, 0, 0, 0, 0 :: int] \<noteq> [] \<and> 0 < [10, 0, 0, 0, 0, 0 :: int] ! 0 \<and>
   length [Elems [], Elems [], Elems [], Elems []] < 7 \<and>
   write_snapshot le_host [10, 0, 0, 0, 0, 0] [Elems [], Elems [], Elems [], Elems []] ''gadget2''
     = (Some IndexError, None)"
  using missing_gas_arrays [of "[10, 0, 0, 0, 0, 0]" "[Elems [], Elems [], Elems [], Elems []]"
      le_host "''gadget2''"]
  by simp

text \<open>
  Claim C7, as the code has it. For every format identifier other than
  \<^verbatim>\<open>gadget2\<close>, \<^verbatim>\<open>write_snapshot\<close> fails without opening the output file; the
  failure is \<^verbatim>\<open>ValueError\<close>, the specification's \<open>UnsupportedFormat\<close>, whenever
  the count sequence is not empty and the data list holds the arrays that are fetched
  before the format is looked at: four, and seven for a positive gas count.
\<close>

theorem unsupported_format:
  assumes "file_format \<noteq> ''gadget2''"
  shows "(\<exists>e. write_snapshot p n_part data_list file_format = (Some e, None)) \<and>
     (n_part \<noteq> [] \<and> 4 \<le> length data_list \<and> (0 < n_part ! 0 \<longrightarrow> 7 \<le> length data_list) \<longrightarrow>
        write_snapshot p n_part data_list file_format = (Some ValueError, None))"
  using assms by (auto simp add: write_snapshot_def Let_def)

theorem unsupported_format_witness:
  "''hdf5'' \<noteq> ''gadget2'' \<and>
   (\<exists>e. write_snapshot le_host [0, 0, 0, 0, 0, 0] [Elems [], Elems [], Elems [], Elems []] ''hdf5''
      = (Some e, None)) \<and>
   write_snapshot le_host [0, 0, 0, 0, 0, 0] [Elems [], Elems [], Elems [], Elems []] ''hdf5''
      = (Some ValueError, None)"
  using unsupported_format [of "''hdf5''" le_host "[0, 0, 0, 0, 0, 0]"
      "[Elems [], Elems [], Elems [], Elems []]"]
  by simp

text \<open>
  Claim C7 as stated, for all data lists, fails: the arrays are fetched before the
  format is compared, so an unsupported format with an empty data list raises
  \<^verbatim>\<open>IndexError\<close>.
\<close>

theorem unsupported_format_short_data:
  "write_snapshot le_host [0, 0, 0, 0, 0, 0] [] ''hdf5'' = (Some IndexError, None)"
  by (simp add: write_snapshot_def)

section \<open>The block writer: claims\<close>

lemma marker_native_bytes: "int32 v \<Longrightarrow> marker bo v (native_bytes bo 4 v)"
  using int_at_here [of v bo "[]"] by (simp add: marker_def)

lemma block_format_int32:
  assumes "block_format block_data data_type block_name = Inr (fmt, nbytes)" "int32 (nbytes + 8)"
  shows "int32 nbytes" "0 \<le> nbytes"
  using assms block_format_nbytes [OF assms(1)] by (auto simp: int32_def split: if_splits)

lemma int_at_only:
  "int32 v \<Longrightarrow> int_at bo 0 (native_bytes bo 4 v) = v"
  using int_at_here [of v bo "[]"] by simp

lemma block_payload_HEAD:
  assumes "block_payload p block_data fmt ''HEAD'' = Inr payload"
  shows "length payload = len block_data"
  using assms by (cases block_data) (simp_all add: block_payload_def)

lemma write_block_ID:
  "write_block le_host (Elems [PyInt 7, PyInt 9]) (Some ''i'') ''ID  '' [] =
     (None, [8, 0, 0, 0, 73, 68, 32, 32, 16, 0, 0, 0, 8, 0, 0, 0, 8, 0, 0, 0,
             7, 0, 0, 0, 9, 0, 0, 0, 8, 0, 0, 0])"
  by code_simp

text \<open>
  Claim C2. For every block that \<^verbatim>\<open>write_block\<close> writes, that is, whenever the
  call returns, the bytes appended to the file are, in this order and with nothing else:
  a 4-byte marker holding 8, the four bytes of the block name, a 4-byte marker holding
  \<open>nbytes + 8\<close>, a 4-byte marker holding 8, a 4-byte marker holding \<open>nbytes\<close>, the
  payload, and a 4-byte marker holding \<open>nbytes\<close>: 24 bytes and the payload. A marker
  holds a number as a signed 32-bit integer in the byte order of the host.
\<close>

theorem write_block_bytes:
  assumes "write_block p block_data data_type block_name f = (None, f')"
  shows "\<exists>fmt nbytes payload m1 m2 m3 m4 m5.
     block_format block_data data_type block_name = Inr (fmt, nbytes) \<and>
     block_payload p block_data fmt block_name = Inr payload \<and>
     f' = f @ m1 @ ascii block_name @ m2 @ m3 @ m4 @ payload @ m5 \<and>
     marker (byteorder p) 8 m1 \<and>
     length (ascii block_name) = 4 \<and>
     marker (byteorder p) (nbytes + 8) m2 \<and>
     marker (byteorder p) 8 m3 \<and>
     marker (byteorder p) nbytes m4 \<and>
     marker (byteorder p) nbytes m5 \<and>
     length f' = length f + 24 + length payload"
proof -
  from write_block_None [OF assms] obtain fmt nbytes payload where
    fmt: "block_format block_data data_type block_name = Inr (fmt, nbytes)" and
    payload: "block_payload p block_data fmt block_name = Inr payload" and
    name: "length block_name = 4" and rng: "int32 (nbytes + 8)" and
    f': "f' = f @ framed (byteorder p) block_name nbytes payload"
    by blast
  let ?m = "\<lambda>v. native_bytes (byteorder p) 4 v"
  have m: "marker (byteorder p) 8 (?m 8)" "marker (byteorder p) (nbytes + 8) (?m (nbytes + 8))"
    "marker (byteorder p) nbytes (?m nbytes)"
    using rng block_format_int32 [OF fmt rng] by (simp_all add: marker_native_bytes int32_def)
  have eq: "f' = f @ ?m 8 @ ascii block_name @ ?m (nbytes + 8) @ ?m 8 @ ?m nbytes @ payload @ ?m nbytes"
    using f' by (simp add: framed_def)
  have len: "length f' = length f + 24 + length payload"
    unfolding eq using name by simp
  show ?thesis
    using fmt payload eq m name len by (intro exI conjI) (assumption | simp)+
qed

theorem write_block_bytes_witness:
  "write_block le_host (Elems [PyInt 7, PyInt 9]) (Some ''i'') ''ID  '' [] =
     (None, [8, 0, 0, 0, 73, 68, 32, 32, 16, 0, 0, 0, 8, 0, 0, 0, 8, 0, 0, 0,
             7, 0, 0, 0, 9, 0, 0, 0, 8, 0, 0, 0]) \<and>
   (\<exists>fmt nbytes payload m1 m2 m3 m4 m5.
     block_format (Elems [PyInt 7, PyInt 9]) (Some ''i'') ''ID  '' = Inr (fmt, nbytes) \<and>
     block_payload le_host (Elems [PyInt 7, PyInt 9]) fmt ''ID  '' = Inr payload \<and>
     [8, 0, 0, 0, 73, 68, 32, 32, 16, 0, 0, 0, 8, 0, 0, 0, 8, 0, 0, 0,
      7, 0, 0, 0, 9, 0, 0, 0, 8, 0, 0, 0] =
       [] @ m1 @ ascii ''ID  '' @ m2 @ m3 @ m4 @ payload @ m5 \<and>
     marker (byteorder le_host) 8 m1 \<and>
     length (ascii ''ID  '') = 4 \<and>
     marker (byteorder le_host) (nbytes + 8) m2 \<and>
     marker (byteorder le_host) 8 m3 \<and>
     marker (byteorder le_host) nbytes m4 \<and>
     marker (byteorder le_host) nbytes m5 \<and>
     length [8, 0, 0, 0, 73, 68, 32, 32, 16, 0, 0, 0, 8, 0, 0, 0, 8, 0, 0, 0,
             7, 0, 0, 0, 9, 0, 0, 0, 8, 0, 0, 0 :: byte] = length ([] :: byte list) + 24 + length payload)"
  by (rule conjI [OF write_block_ID write_block_bytes [OF write_block_ID]])

lemma block_payload_size:
  assumes "block_format block_data data_type block_name = Inr (fmt, nbytes)"
    and "block_payload p block_data fmt block_name = Inr payload"
    and "block_name = ''HEAD'' \<and> len block_data = 256 \<or>
         block_name \<noteq> ''HEAD'' \<and> (data_type = Some ''f'' \<or> data_type = Some ''i'')"
  shows "int (length payload) = nbytes"
proof (cases "block_name = ''HEAD''")
  case True
  then show ?thesis
    using block_payload_HEAD [of p block_data fmt payload] assms block_format_nbytes [OF assms(1)]
    by simp
next
  case False
  then show ?thesis
    using block_payload_length [OF assms(1,2)] assms(3) by blast
qed

lemma write_block_HEAD_zero:
  "write_block le_host (Raw (replicate 256 0)) None ''HEAD'' [] =
     (None, framed LittleEndian ''HEAD'' 256 (replicate 256 0))"
  by code_simp

lemma write_block_two_floats:
  "write_block le_host (Elems [float_1_0, float_0_0]) (Some ''f'') ''MASS'' [] =
     (None, [8, 0, 0, 0, 77, 65, 83, 83, 16, 0, 0, 0, 8, 0, 0, 0, 8, 0, 0, 0,
             0, 0, 128, 63, 0, 0, 0, 0, 8, 0, 0, 0])"
  by code_simp

text \<open>
  Claim C3, as the code has it. For every block that \<^verbatim>\<open>write_block\<close> writes, the
  declared size \<open>nbytes\<close> is 256 for the name \<^verbatim>\<open>HEAD\<close> and four times the number
  of elements for every other name, and the marker before the payload and the marker after
  it both hold \<open>nbytes\<close>. The number of payload bytes between the two equals
  \<open>nbytes\<close> for a block of another name whose \<^verbatim>\<open>data_type\<close> is \<^verbatim>\<open>'f'\<close> or
  \<^verbatim>\<open>'i'\<close>, and for a \<^verbatim>\<open>HEAD\<close> block whose data has 256 bytes: these are the
  blocks that \<^verbatim>\<open>write_snapshot\<close> writes.
\<close>

theorem write_block_declared_size:
  assumes "write_block p block_data data_type block_name f = (None, f')"
  shows "\<exists>fmt nbytes payload.
     block_format block_data data_type block_name = Inr (fmt, nbytes) \<and>
     nbytes = (if block_name = ''HEAD'' then 256 else int (len block_data) * 4) \<and>
     block_payload p block_data fmt block_name = Inr payload \<and>
     int_at (byteorder p) (length f + 16) f' = nbytes \<and>
     take (length payload) (drop (length f + 20) f') = payload \<and>
     int_at (byteorder p) (length f + 20 + length payload) f' = nbytes \<and>
     length f' = length f + 24 + length payload \<and>
     (block_name = ''HEAD'' \<and> len block_data = 256 \<or>
      block_name \<noteq> ''HEAD'' \<and> (data_type = Some ''f'' \<or> data_type = Some ''i'') \<longrightarrow>
        int (length payload) = nbytes \<and> length f' = length f + 24 + nat nbytes)"
proof -
  from write_block_None [OF assms(1)] obtain fmt nbytes payload where
    fmt: "block_format block_data data_type block_name = Inr (fmt, nbytes)" and
    payload: "block_payload p block_data fmt block_name = Inr payload" and
    name: "length block_name = 4" and rng: "int32 (nbytes + 8)" and
    f': "f' = f @ framed (byteorder p) block_name nbytes payload"
    by blast
  note nb = block_format_nbytes [OF fmt]
  note n32 = block_format_int32 [OF fmt rng]
  have op: "int_at (byteorder p) (length f + 16) f' = nbytes"
    unfolding f' using name n32 by (simp add: framed_def int_at_skip int_at_here)
  have cl: "int_at (byteorder p) (length f + 20 + length payload) f' = nbytes"
    unfolding f' using name n32 by (simp add: framed_def int_at_skip int_at_here int_at_only)
  have py: "take (length payload) (drop (length f + 20) f') = payload"
    unfolding f' using name by (simp add: framed_def)
  have len: "length f' = length f + 24 + length payload"
    unfolding f' using name by (simp add: framed_def)
  have size: "int (length payload) = nbytes \<and> length f' = length f + 24 + nat nbytes"
    if "block_name = ''HEAD'' \<and> len block_data = 256 \<or>
      block_name \<noteq> ''HEAD'' \<and> (data_type = Some ''f'' \<or> data_type = Some ''i'')"
    using block_payload_size [OF fmt payload that] len by auto
  show ?thesis
    using fmt nb payload op cl py len size by blast
qed

theorem write_block_declared_size_witness:
  "write_block le_host (Elems [float_1_0, float_0_0]) (Some ''f'') ''MASS'' [] =
     (None, [8, 0, 0, 0, 77, 65, 83, 83, 16, 0, 0, 0, 8, 0, 0, 0, 8, 0, 0, 0,
             0, 0, 128, 63, 0, 0, 0, 0, 8, 0, 0, 0]) \<and>
   (\<exists>fmt payload.
     block_format (Elems [float_1_0, float_0_0]) (Some ''f'') ''MASS'' = Inr (fmt, 8) \<and>
     block_payload le_host (Elems [float_1_0, float_0_0]) fmt ''MASS'' = Inr payload \<and>
     int_at LittleEndian 16
       [8, 0, 0, 0, 77, 65, 83, 83, 16, 0, 0, 0, 8, 0, 0, 0, 8, 0, 0, 0,
        0, 0, 128, 63, 0, 0, 0, 0, 8, 0, 0, 0] = 8 \<and>
     int_at LittleEndian (20 + length payload)
       [8, 0, 0, 0, 77, 65, 83, 83, 16, 0, 0, 0, 8, 0, 0, 0, 8, 0, 0, 0,
        0, 0, 128, 63, 0, 0, 0, 0, 8, 0, 0, 0] = 8 \<and>
     length payload = 8) \<and>
   write_block le_host (Raw (replicate 256 0)) None ''HEAD'' [] =
     (None, framed LittleEndian ''HEAD'' 256 (replicate 256 0)) \<and>
   (\<exists>fmt payload.
     block_format (Raw (replicate 256 0)) None ''HEAD'' = Inr (fmt, 256) \<and>
     block_payload le_host (Raw (replicate 256 0)) fmt ''HEAD'' = Inr payload \<and>
     int_at LittleEndian 16 (framed LittleEndian ''HEAD'' 256 (replicate 256 0)) = 256 \<and>
     int_at LittleEndian (20 + length payload)
       (framed LittleEndian ''HEAD'' 256 (replicate 256 0)) = 256 \<and>
     length payload = 256)"
proof -
  have a: "\<exists>fmt payload.
     block_format (Elems [float_1_0, float_0_0]) (Some ''f'') ''MASS'' = Inr (fmt, 8) \<and>
     block_payload le_host (Elems [float_1_0, float_0_0]) fmt ''MASS'' = Inr payload \<and>
     int_at LittleEndian 16
       [8, 0, 0, 0, 77, 65, 83, 83, 16, 0, 0, 0, 8, 0, 0, 0, 8, 0, 0, 0,
        0, 0, 128, 63, 0, 0, 0, 0, 8, 0, 0, 0] = 8 \<and>
     int_at LittleEndian (20 + length payload)
       [8, 0, 0, 0, 77, 65, 83, 83, 16, 0, 0, 0, 8, 0, 0, 0, 8, 0, 0, 0,
        0, 0, 128, 63, 0, 0, 0, 0, 8, 0, 0, 0] = 8 \<and>
     length payload = 8"
    using write_block_declared_size [OF write_block_two_floats]
    by (auto simp: le_host_def)
  have b: "\<exists>fmt payload.
     block_format (Raw (replicate 256 0)) None ''HEAD'' = Inr (fmt, 256) \<and>
     block_payload le_host (Raw (replicate 256 0)) fmt ''HEAD'' = Inr payload \<and>
     int_at LittleEndian 16 (framed LittleEndian ''HEAD'' 256 (replicate 256 0)) = 256 \<and>
     int_at LittleEndian (20 + length payload)
       (framed LittleEndian ''HEAD'' 256 (replicate 256 0)) = 256 \<and>
     length payload = 256"
    using write_block_declared_size [OF write_block_HEAD_zero]
    by (auto simp: le_host_def)
  show ?thesis
    using write_block_two_floats write_block_HEAD_zero a b by blast
qed

text \<open>
  Claim C3 as stated, for every block, fails: the declared size counts four bytes for
  each element whatever \<^verbatim>\<open>data_type\<close> is, and for \<^verbatim>\<open>HEAD\<close> it is the constant
  256 whatever the data is. One element with the format \<^verbatim>\<open>'d'\<close> is declared as 4
  bytes and written as 8, and a \<^verbatim>\<open>HEAD\<close> block with empty data is declared as 256
  bytes and has none.
\<close>

theorem write_block_size_mismatch:
  "write_block le_host (Elems [float_1_0]) (Some ''d'') ''POS '' [] =
     (None, [8, 0, 0, 0, 80, 79, 83, 32, 12, 0, 0, 0, 8, 0, 0, 0, 4, 0, 0, 0,
             0, 0, 0, 0, 0, 0, 240, 63, 4, 0, 0, 0]) \<and>
   write_block le_host (Raw []) None ''HEAD'' [] =
     (None, [8, 0, 0, 0, 72, 69, 65, 68, 8, 1, 0, 0, 8, 0, 0, 0, 0, 1, 0, 0, 0, 1, 0, 0])"
  by code_simp

section \<open>The byte order of what is written\<close>














section \<open>The snapshot writer: the sequence of blocks\<close>

lemma then_io_skip [simp]: "then_io a skip_io = a" "then_io skip_io a = a"
  by (auto simp: then_io_def skip_io_def fun_eq_iff split: prod.splits option.splits)


lemma read_blocks_Nil [simp]: "read_blocks bo [] = Some []"
  by (subst read_blocks.simps) simp

















section \<open>The configuration reader: claims\<close>

lemma header_typing_no_char: "map_of header_typing [c] = None"
  by (simp add: header_typing_def)

lemma coerce_header_raises:
  "ks \<noteq> [] \<Longrightarrow> coerce_header call header ks = Inl ValueError \<or>
     coerce_header call header ks = Inl KeyError"
  by (cases ks) (simp_all add: header_typing_no_char Let_def)

text \<open>
  The coercion loop unpacks each key of the header, a string, into two targets. No key
  of \<open>header_typing\<close> has one character, so whatever the document is, the function
  raises: for a missing file, an undecodable document, a missing \<^verbatim>\<open>HEADER\<close> or a
  missing key as intended, and for a complete header in the loop, at its first key.
\<close>

lemma read_configuration_file_raises:
  "\<exists>e. read_configuration_file call loaded = Inl e"
proof (cases loaded)
  case (Loaded configuration_data)
  show ?thesis
  proof (cases "map_of configuration_data ''HEADER''")
    case None
    then show ?thesis by (simp add: read_configuration_file_def Loaded)
  next
    case (Some header)
    show ?thesis
    proof (cases "filter (\<lambda>i. i \<notin> set (map fst header)) (map fst header_typing) = []")
      case True
      then have "\<forall>i \<in> set (map fst header_typing). i \<in> set (map fst header)"
        by (simp only: filter_empty_conv not_not)
      moreover have "''time'' \<in> set (map fst header_typing)"
        by (simp add: header_typing_def)
      ultimately have "''time'' \<in> set (map fst header)"
        by blast
      then have "map fst header \<noteq> []" by auto
      from coerce_header_raises [OF this, of call header] show ?thesis
        using True by (auto simp: read_configuration_file_def Loaded Some Let_def)
    next
      case False
      then show ?thesis by (simp add: read_configuration_file_def Loaded Some Let_def)
    qed
  qed
qed (simp_all add: read_configuration_file_def)

text \<open>
  Claim C9. Its first half holds: a header that lacks a required key raises
  \<^verbatim>\<open>SyntaxError\<close>, and the function writes nothing. Its second half fails on the
  code: for a document whose \<^verbatim>\<open>HEADER\<close> has all the required keys, with values of
  the declared types, no value is coerced; the loop raises \<^verbatim>\<open>ValueError\<close> when it
  unpacks the first key, \<^verbatim>\<open>mass_array\<close>, into \<^verbatim>\<open>key, value\<close>.
\<close>

theorem read_configuration_file_complete_header:
  "read_configuration_file call
     (Loaded [(''HEADER'',
        [(''mass_array'', TArray [TInteger 0, TInteger 0, TInteger 0, TInteger 0, TInteger 0, TInteger 0]),
         (''time'', TFloat double_0_0),
         (''redshift'', TFloat double_0_0),
         (''flag_sfr'', TInteger 0),
         (''flag_cooling'', TInteger 0),
         (''flag_feedback'', TInteger 0),
         (''num_files'', TInteger 1),
         (''boxsize'', TFloat double_0_0),
         (''omega0'', TFloat double_0_0),
         (''omega_lambda'', TFloat double_0_0),
         (''hubble_param'', TFloat double_1_0),
         (''flag_age'', TInteger 0),
         (''flag_metals'', TInteger 0)])]) = Inl ValueError"
  by (simp add: read_configuration_file_def header_typing_def)

end
